theory Spec2Isabelle
  imports Main
begin

section \<open>Python values, exceptions and dictionary access\<close>

text \<open>
  The two scripts pass JSON-like data around: \<^verbatim>\<open>None\<close>, booleans, integers, strings, lists and
  dictionaries. A dictionary is an association list (insertion order kept, first binding of a
  key wins); a value that stands for a Python dictionary has distinct keys.
\<close>

datatype pyval =
    PNone
  | PBool bool
  | PInt int
  | PStr string
  | PList "pyval list"
  | PDict "(pyval \<times> pyval) list"

text \<open>
  A raised exception carries its class name and the text of \<^verbatim>\<open>str(e)\<close>. \<open>Exn\<close> is an instance
  of a subclass of \<^verbatim>\<open>Exception\<close>; \<open>BaseExn\<close> is an instance of \<^verbatim>\<open>BaseException\<close> that is not an
  \<^verbatim>\<open>Exception\<close> (\<^verbatim>\<open>CancelledError\<close>, \<^verbatim>\<open>KeyboardInterrupt\<close>, \<^verbatim>\<open>SystemExit\<close>), which
  \<^verbatim>\<open>except Exception\<close> does not catch.
\<close>

datatype exn = Exn string string | BaseExn string string

fun exn_str :: "exn \<Rightarrow> string" where
  "exn_str (Exn c m) = m"
| "exn_str (BaseExn c m) = m"

fun is_Exception :: "exn \<Rightarrow> bool" where
  "is_Exception (Exn c m) = True"
| "is_Exception (BaseExn c m) = False"

fun type_name :: "pyval \<Rightarrow> string" where
  "type_name PNone = ''NoneType''"
| "type_name (PBool b) = ''bool''"
| "type_name (PInt i) = ''int''"
| "type_name (PStr s) = ''str''"
| "type_name (PList xs) = ''list''"
| "type_name (PDict kv) = ''dict''"

text \<open>Truth value testing, as the \<^verbatim>\<open>if\<close> statement applies it.\<close>

fun truthy :: "pyval \<Rightarrow> bool" where
  "truthy PNone = False"
| "truthy (PBool b) = b"
| "truthy (PInt i) = (i \<noteq> 0)"
| "truthy (PStr s) = (s \<noteq> [])"
| "truthy (PList xs) = (xs \<noteq> [])"
| "truthy (PDict kv) = (kv \<noteq> [])"

definition quoted :: "string \<Rightarrow> string" where
  "quoted s = [CHR 0x27] @ s @ [CHR 0x27]"

definition AttributeError :: "string \<Rightarrow> string \<Rightarrow> exn" where
  "AttributeError ty attr =
     Exn ''AttributeError'' (quoted ty @ '' object has no attribute '' @ quoted attr)"

definition KeyError :: "string \<Rightarrow> exn" where
  "KeyError k = Exn ''KeyError'' (quoted k)"

definition TypeError :: "string \<Rightarrow> exn" where
  "TypeError m = Exn ''TypeError'' m"

definition bind_exn :: "exn + 'a \<Rightarrow> ('a \<Rightarrow> exn + 'b) \<Rightarrow> exn + 'b" where
  "bind_exn r f = (case r of Inl e \<Rightarrow> Inl e | Inr x \<Rightarrow> f x)"

text \<open>\<^verbatim>\<open>v.get(k, d)\<close>: only a dictionary has the method.\<close>

fun py_get :: "pyval \<Rightarrow> string \<Rightarrow> pyval \<Rightarrow> exn + pyval" where
  "py_get (PDict kv) k d = Inr (case map_of kv (PStr k) of None \<Rightarrow> d | Some v \<Rightarrow> v)"
| "py_get v k d = Inl (AttributeError (type_name v) ''get'')"

text \<open>\<^verbatim>\<open>v[k]\<close> for a string key \<open>k\<close>.\<close>

fun py_subscript :: "pyval \<Rightarrow> string \<Rightarrow> exn + pyval" where
  "py_subscript (PDict kv) k =
     (case map_of kv (PStr k) of None \<Rightarrow> Inl (KeyError k) | Some v \<Rightarrow> Inr v)"
| "py_subscript (PList xs) k =
     Inl (TypeError ''list indices must be integers or slices, not str'')"
| "py_subscript (PStr s) k =
     Inl (TypeError (''string indices must be integers, not '' @ quoted ''str''))"
| "py_subscript v k = Inl (TypeError (quoted (type_name v) @ '' object is not subscriptable''))"

text \<open>The items a \<^verbatim>\<open>for\<close> loop over \<open>v\<close> visits.\<close>

fun py_iter :: "pyval \<Rightarrow> exn + pyval list" where
  "py_iter (PList xs) = Inr xs"
| "py_iter (PStr s) = Inr (map (\<lambda>c. PStr [c]) s)"
| "py_iter (PDict kv) = Inr (map fst kv)"
| "py_iter v = Inl (TypeError (quoted (type_name v) @ '' object is not iterable''))"

section \<open>DentalCareTeam.py\<close>

subsection \<open>Tasks, executors and the orchestration library\<close>

text \<open>
  \<^verbatim>\<open>Task\<close> and \<^verbatim>\<open>TaskExecutor\<close> are built from keyword arguments only; their constructors are
  taken to store the arguments.
\<close>

record task =
  name :: string
  description :: string
  required_expertise :: "string list"
  parameters :: pyval

record taskexecutor =
  executor_name :: string
  expertise :: "string list"
  executor_description :: string

text \<open>
  Every call into the library and every line printed is logged, with its outcome, in the order
  in which the driver makes it. \<open>PlanCreation\<close> marks the invocation of
  \<^verbatim>\<open>create_treatment_plan\<close> with its argument.
\<close>

datatype event =
    AssignTask task taskexecutor "exn option"
  | TaskComplete task "exn + pyval"
  | PlanCreation pyval
  | Gather "task list" "exn option"
  | ReadResults task "exn + pyval"
  | Print string

text \<open>
  The library (\<^verbatim>\<open>TroupeDirector.assign_task\<close>, \<^verbatim>\<open>Task.complete\<close>, awaiting the tasks with
  \<^verbatim>\<open>asyncio.gather\<close>, the attribute \<^verbatim>\<open>Task.results\<close>) is not part of the repository. It is a
  parameter: each operation answers from the history of calls made so far, either normally or
  by raising. Values are immutable here: the library is taken not to modify a dictionary or
  a list that the driver hands to it.
\<close>

record world =
  assign_task :: "event list \<Rightarrow> task \<Rightarrow> taskexecutor \<Rightarrow> exn option"
  complete :: "event list \<Rightarrow> task \<Rightarrow> exn + pyval"
  gather :: "event list \<Rightarrow> task list \<Rightarrow> exn option"
  results :: "event list \<Rightarrow> task \<Rightarrow> exn + pyval"

type_synonym 'a io = "event list \<Rightarrow> (exn + 'a) \<times> event list"

definition return_io :: "'a \<Rightarrow> 'a io" where
  "return_io x tr = (Inr x, tr)"

definition lift_io :: "exn + 'a \<Rightarrow> 'a io" where
  "lift_io r tr = (r, tr)"

definition bind_io :: "'a io \<Rightarrow> ('a \<Rightarrow> 'b io) \<Rightarrow> 'b io" where
  "bind_io m f tr = (case m tr of (Inl e, tr') \<Rightarrow> (Inl e, tr') | (Inr x, tr') \<Rightarrow> f x tr')"

definition director_assign_task :: "world \<Rightarrow> task \<Rightarrow> taskexecutor \<Rightarrow> unit io" where
  "director_assign_task w t ex tr =
     (let r = assign_task w tr t ex
      in ((case r of None \<Rightarrow> Inr () | Some e \<Rightarrow> Inl e), tr @ [AssignTask t ex r]))"

definition task_complete :: "world \<Rightarrow> task \<Rightarrow> pyval io" where
  "task_complete w t tr = (let r = complete w tr t in (r, tr @ [TaskComplete t r]))"

definition asyncio_gather :: "world \<Rightarrow> task list \<Rightarrow> unit io" where
  "asyncio_gather w ts tr =
     (let r = gather w tr ts
      in ((case r of None \<Rightarrow> Inr () | Some e \<Rightarrow> Inl e), tr @ [Gather ts r]))"

definition task_results :: "world \<Rightarrow> task \<Rightarrow> pyval io" where
  "task_results w t tr = (let r = results w tr t in (r, tr @ [ReadResults t r]))"

subsection \<open>The team\<close>

definition general_dentist :: taskexecutor where
  "general_dentist =
     \<lparr>executor_name = ''General Dentist'',
      expertise = [''general_dentistry'', ''diagnosis'', ''treatment_planning''],
      executor_description = ''Provides primary dental care and coordinates treatments''\<rparr>"

definition dental_hygienist :: taskexecutor where
  "dental_hygienist =
     \<lparr>executor_name = ''Dental Hygienist'',
      expertise = [''cleaning'', ''preventive_care'', ''patient_education''],
      executor_description = ''Performs cleanings and preventive care''\<rparr>"

definition treatment_coordinator :: taskexecutor where
  "treatment_coordinator =
     \<lparr>executor_name = ''Treatment Coordinator'',
      expertise = [''treatment_planning'', ''scheduling'', ''insurance_coordination''],
      executor_description = ''Manages treatment plans and scheduling''\<rparr>"

definition dental_specialist :: taskexecutor where
  "dental_specialist =
     \<lparr>executor_name = ''Dental Specialist'',
      expertise = [''endodontics'', ''orthodontics'', ''oral_surgery''],
      executor_description = ''Provides specialized dental treatments''\<rparr>"

definition patient_care_coordinator :: taskexecutor where
  "patient_care_coordinator =
     \<lparr>executor_name = ''Patient Care Coordinator'',
      expertise = [''patient_communication'', ''care_planning'', ''follow_up''],
      executor_description = ''Ensures patient comfort and treatment adherence''\<rparr>"

subsection \<open>The dispatch methods\<close>

definition exam_task :: "pyval \<Rightarrow> task" where
  "exam_task patient_data =
     \<lparr>name = ''Initial Examination'',
      description = ''Complete dental examination and treatment planning'',
      required_expertise = [''general_dentistry'', ''diagnosis''],
      parameters = PDict [(PStr ''patient_data'', patient_data),
                          (PStr ''examination_type'', PStr ''comprehensive'')]\<rparr>"

definition initial_examination :: "world \<Rightarrow> pyval \<Rightarrow> task io" where
  "initial_examination w patient_data =
     bind_io (director_assign_task w (exam_task patient_data) general_dentist)
       (\<lambda>_. return_io (exam_task patient_data))"

definition hygiene_task :: "pyval \<Rightarrow> pyval \<Rightarrow> task" where
  "hygiene_task patient_id care_type =
     \<lparr>name = ''Dental Hygiene'',
      description = ''Provide dental cleaning and preventive care'',
      required_expertise = [''cleaning'', ''preventive_care''],
      parameters = PDict [(PStr ''patient_id'', patient_id), (PStr ''care_type'', care_type)]\<rparr>"

definition schedule_hygiene_care :: "world \<Rightarrow> pyval \<Rightarrow> pyval \<Rightarrow> task io" where
  "schedule_hygiene_care w patient_id care_type =
     bind_io (director_assign_task w (hygiene_task patient_id care_type) dental_hygienist)
       (\<lambda>_. return_io (hygiene_task patient_id care_type))"

definition coordination_task :: "pyval \<Rightarrow> task" where
  "coordination_task treatment_plan =
     \<lparr>name = ''Treatment Coordination'',
      description = ''Coordinate treatment schedule and insurance coverage'',
      required_expertise = [''treatment_planning'', ''insurance_coordination''],
      parameters = treatment_plan\<rparr>"

definition coordinate_treatment :: "world \<Rightarrow> pyval \<Rightarrow> task io" where
  "coordinate_treatment w treatment_plan =
     bind_io (director_assign_task w (coordination_task treatment_plan) treatment_coordinator)
       (\<lambda>_. return_io (coordination_task treatment_plan))"

definition specialist_task :: "pyval \<Rightarrow> task" where
  "specialist_task case_details =
     \<lparr>name = ''Specialist Consultation'',
      description = ''Provide specialized dental treatment'',
      required_expertise = [''endodontics'', ''orthodontics'', ''oral_surgery''],
      parameters = case_details\<rparr>"

definition specialist_consultation :: "world \<Rightarrow> pyval \<Rightarrow> task io" where
  "specialist_consultation w case_details =
     bind_io (director_assign_task w (specialist_task case_details) dental_specialist)
       (\<lambda>_. return_io (specialist_task case_details))"

definition care_task :: "pyval \<Rightarrow> task" where
  "care_task patient_info =
     \<lparr>name = ''Patient Care Management'',
      description = ''Ensure patient comfort and treatment follow-up'',
      required_expertise = [''patient_communication'', ''care_planning''],
      parameters = patient_info\<rparr>"

definition manage_patient_care :: "world \<Rightarrow> pyval \<Rightarrow> task io" where
  "manage_patient_care w patient_info =
     bind_io (director_assign_task w (care_task patient_info) patient_care_coordinator)
       (\<lambda>_. return_io (care_task patient_info))"

subsection \<open>The treatment plan\<close>

definition preventive_care_literal :: pyval where
  "preventive_care_literal =
     PDict [(PStr ''cleaning_frequency'', PStr ''6 months''),
            (PStr ''x_rays'', PStr ''yearly''),
            (PStr ''fluoride'', PStr ''as needed'')]"

definition create_treatment_plan :: "pyval \<Rightarrow> exn + pyval" where
  "create_treatment_plan examination_results =
     bind_exn (py_get examination_results ''restorative_needs'' (PList [])) (\<lambda>restorative.
     bind_exn (py_get examination_results ''referral_needs'' (PList [])) (\<lambda>referrals.
     bind_exn (py_get examination_results ''priority_treatments'' (PList [])) (\<lambda>priority.
       Inr (PDict [(PStr ''preventive_care'', preventive_care_literal),
                   (PStr ''restorative_care'', restorative),
                   (PStr ''specialist_referrals'', referrals),
                   (PStr ''estimated_timeline'', PStr ''12 months''),
                   (PStr ''priority_procedures'', priority)]))))"

definition create_treatment_plan_call :: "pyval \<Rightarrow> pyval io" where
  "create_treatment_plan_call examination_results tr =
     (create_treatment_plan examination_results, tr @ [PlanCreation examination_results])"

subsection \<open>The workflow driver\<close>

text \<open>The \<^verbatim>\<open>for referral in ...\<close> loop, appending each dispatched task.\<close>

fun specialist_loop :: "world \<Rightarrow> pyval list \<Rightarrow> task list \<Rightarrow> task list io" where
  "specialist_loop w [] specialist_tasks = return_io specialist_tasks"
| "specialist_loop w (referral # rest) specialist_tasks =
     bind_io (specialist_consultation w referral) (\<lambda>t.
       specialist_loop w rest (specialist_tasks @ [t]))"

text \<open>The comprehension \<^verbatim>\<open>[task.results for task in specialist_tasks]\<close>.\<close>

fun collect_results :: "world \<Rightarrow> task list \<Rightarrow> pyval list io" where
  "collect_results w [] = return_io []"
| "collect_results w (t # ts) =
     bind_io (task_results w t) (\<lambda>r.
     bind_io (collect_results w ts) (\<lambda>rs. return_io (r # rs)))"

text \<open>Lines 158 to 180: from the Coordination dispatch to the returned dictionary.\<close>

definition workflow_from_coordination :: "world \<Rightarrow> pyval \<Rightarrow> pyval \<Rightarrow> pyval \<Rightarrow> pyval io" where
  "workflow_from_coordination w patient_data exam_results treatment_plan =
     bind_io (coordinate_treatment w treatment_plan) (\<lambda>coordination.
     bind_io (lift_io (py_subscript treatment_plan ''specialist_referrals'')) (\<lambda>referrals.
     bind_io (lift_io (py_iter referrals)) (\<lambda>items.
     bind_io (specialist_loop w items []) (\<lambda>specialist_tasks.
     bind_io (manage_patient_care w patient_data) (\<lambda>care.
     bind_io (asyncio_gather w ([coordination, care] @ specialist_tasks)) (\<lambda>_.
     bind_io (task_results w coordination) (\<lambda>coordination_status.
     bind_io (collect_results w specialist_tasks) (\<lambda>consultations.
     bind_io (task_results w care) (\<lambda>care_status.
       return_io (PDict [(PStr ''examination'', exam_results),
                         (PStr ''treatment_plan'', treatment_plan),
                         (PStr ''coordination_status'', coordination_status),
                         (PStr ''specialist_consultations'', PList consultations),
                         (PStr ''patient_care_status'', care_status)]))))))))))"

text \<open>Lines 151 to 180: the conditional hygiene step, then the rest.\<close>

definition workflow_from_plan :: "world \<Rightarrow> pyval \<Rightarrow> pyval \<Rightarrow> pyval \<Rightarrow> pyval io" where
  "workflow_from_plan w patient_data exam_results treatment_plan =
     bind_io (lift_io (py_subscript treatment_plan ''preventive_care'')) (\<lambda>preventive.
     bind_io (lift_io (py_get preventive ''immediate_cleaning'' PNone)) (\<lambda>flag.
     bind_io (if truthy flag
              then bind_io (lift_io (py_subscript patient_data ''id'')) (\<lambda>patient_id.
                   bind_io (schedule_hygiene_care w patient_id (PStr ''comprehensive_cleaning''))
                     (\<lambda>_. return_io ()))
              else return_io ()) (\<lambda>_.
       workflow_from_coordination w patient_data exam_results treatment_plan)))"

text \<open>The body of the \<^verbatim>\<open>try\<close> block.\<close>

definition workflow_body :: "world \<Rightarrow> pyval \<Rightarrow> pyval io" where
  "workflow_body w patient_data =
     bind_io (initial_examination w patient_data) (\<lambda>exam.
     bind_io (task_complete w exam) (\<lambda>exam_results.
     bind_io (create_treatment_plan_call exam_results) (\<lambda>treatment_plan.
       workflow_from_plan w patient_data exam_results treatment_plan)))"

text \<open>
  \<^verbatim>\<open>except Exception as e\<close> prints and returns \<^verbatim>\<open>None\<close>; anything else that is raised leaves
  the method.
\<close>

definition run_dental_care_workflow :: "world \<Rightarrow> pyval \<Rightarrow> pyval io" where
  "run_dental_care_workflow w patient_data tr =
     (case workflow_body w patient_data tr of
        (Inr r, tr') \<Rightarrow> (Inr r, tr')
      | (Inl e, tr') \<Rightarrow>
          if is_Exception e
          then (Inr PNone, tr' @ [Print (''Error in dental care workflow: '' @ exn_str e)])
          else (Inl e, tr'))"

section \<open>PatientCenteredCare.py\<close>

text \<open>
  The attributes an instance of \<^verbatim>\<open>PatientCenteredCare\<close> has: \<^verbatim>\<open>crew\<close>, set by \<^verbatim>\<open>__init__\<close>, and
  the methods of the class body. The class has no base class besides \<^verbatim>\<open>object\<close> and defines no
  \<^verbatim>\<open>__getattr__\<close>.
\<close>

definition PatientCenteredCare_attributes :: "string list" where
  "PatientCenteredCare_attributes =
     [''crew'', ''__init__'', ''create_care_plan'', ''_design_treatment_plan'',
      ''_arrange_support_services'', ''_evaluate_research_options'',
      ''get_patient_feedback'', ''adjust_care_plan'']"

text \<open>
  \<^verbatim>\<open>self.m(args)\<close> for a helper \<open>m\<close> whose body is not in the file: the attribute is looked up
  first, and \<^verbatim>\<open>AttributeError\<close> is raised when the instance has none of that name. What a bound
  helper would compute is the parameter \<open>impl\<close>.
\<close>

definition self_call ::
  "(string \<Rightarrow> pyval list \<Rightarrow> exn + pyval) \<Rightarrow> string \<Rightarrow> pyval list \<Rightarrow> exn + pyval" where
  "self_call impl m args =
     (if m \<in> set PatientCenteredCare_attributes then impl m args
      else Inl (AttributeError ''PatientCenteredCare'' m))"

text \<open>
  The methods \<^verbatim>\<open>_design_treatment_plan\<close>, \<^verbatim>\<open>_arrange_support_services\<close> and
  \<^verbatim>\<open>_evaluate_research_options\<close>, named without the leading underscore. A dictionary display
  evaluates its values in the order written.
\<close>

definition design_treatment_plan ::
  "(string \<Rightarrow> pyval list \<Rightarrow> exn + pyval) \<Rightarrow> pyval \<Rightarrow> exn + pyval" where
  "design_treatment_plan impl preferences =
     bind_exn (py_get preferences ''preferred_treatment_approach'' PNone) (\<lambda>primary.
     bind_exn (self_call impl ''_identify_alternatives'' [preferences]) (\<lambda>alternatives.
     bind_exn (py_get preferences ''comfort_priorities'' PNone) (\<lambda>comfort.
     bind_exn (py_get preferences ''scheduling_needs'' PNone) (\<lambda>flexibility.
       Inr (PDict [(PStr ''primary_treatment'', primary),
                   (PStr ''alternative_options'', alternatives),
                   (PStr ''comfort_measures'', comfort),
                   (PStr ''schedule_flexibility'', flexibility)])))))"

definition arrange_support_services ::
  "(string \<Rightarrow> pyval list \<Rightarrow> exn + pyval) \<Rightarrow> pyval \<Rightarrow> exn + pyval" where
  "arrange_support_services impl preferences =
     bind_exn (self_call impl ''_setup_counseling'' [preferences]) (\<lambda>emotional.
     bind_exn (self_call impl ''_arrange_family_services'' [preferences]) (\<lambda>family.
     bind_exn (self_call impl ''_organize_practical_help'' [preferences]) (\<lambda>practical.
     bind_exn (self_call impl ''_provide_education'' [preferences]) (\<lambda>educational.
       Inr (PDict [(PStr ''emotional_support'', emotional),
                   (PStr ''family_support'', family),
                   (PStr ''practical_assistance'', practical),
                   (PStr ''educational_resources'', educational)])))))"

definition evaluate_research_options ::
  "(string \<Rightarrow> pyval list \<Rightarrow> exn + pyval) \<Rightarrow> pyval \<Rightarrow> exn + pyval" where
  "evaluate_research_options impl preferences =
     bind_exn (py_get preferences ''interested_in_research'' (PBool False)) (\<lambda>interested.
       if \<not> truthy interested
       then Inr (PDict [(PStr ''participation'', PStr ''None - patient preference'')])
       else
         bind_exn (self_call impl ''_find_matching_studies'' [preferences]) (\<lambda>studies.
         bind_exn (self_call impl ''_identify_direct_benefits'' []) (\<lambda>benefits.
         bind_exn (self_call impl ''_create_communication_plan'' []) (\<lambda>communication.
           Inr (PDict [(PStr ''suitable_studies'', studies),
                       (PStr ''patient_benefits'', benefits),
                       (PStr ''opt_out_protocol'', PStr ''Available at any time''),
                       (PStr ''communication_plan'', communication)])))))"

definition create_care_plan ::
  "(string \<Rightarrow> pyval list \<Rightarrow> exn + pyval) \<Rightarrow> pyval \<Rightarrow> exn + pyval" where
  "create_care_plan impl patient_preferences =
     bind_exn (design_treatment_plan impl patient_preferences) (\<lambda>treatment.
     bind_exn (arrange_support_services impl patient_preferences) (\<lambda>support.
     bind_exn (evaluate_research_options impl patient_preferences) (\<lambda>research.
       Inr (PDict [(PStr ''treatment_plan'', treatment),
                   (PStr ''support_services'', support),
                   (PStr ''research_participation'', research)]))))"

section \<open>Observations on a log\<close>

text \<open>
  The tasks handed to \<^verbatim>\<open>assign_task\<close>, in order, whatever the outcome of the call; those with
  a given name; the exception an event raised, if any; a dispatch of the Coordination task or
  of a consultation that raised, which is what ends the fan-out before its last referral; a
  log in which nothing raised.
\<close>

fun dispatched :: "event list \<Rightarrow> task list" where
  "dispatched [] = []"
| "dispatched (AssignTask t ex r # evs) = t # dispatched evs"
| "dispatched (ev # evs) = dispatched evs"

definition dispatched_named :: "string \<Rightarrow> event list \<Rightarrow> task list" where
  "dispatched_named n tr = filter (\<lambda>t. name t = n) (dispatched tr)"

fun raised :: "event \<Rightarrow> exn option" where
  "raised (AssignTask t ex r) = r"
| "raised (TaskComplete t r) = (case r of Inl e \<Rightarrow> Some e | Inr v \<Rightarrow> None)"
| "raised (PlanCreation er) = None"
| "raised (Gather ts r) = r"
| "raised (ReadResults t r) = (case r of Inl e \<Rightarrow> Some e | Inr v \<Rightarrow> None)"
| "raised (Print s) = None"

fun fan_out_cut_short :: "event \<Rightarrow> bool" where
  "fan_out_cut_short (AssignTask t ex (Some e)) =
     (name t = ''Treatment Coordination'' \<or> name t = ''Specialist Consultation'')"
| "fan_out_cut_short ev = False"

definition clean :: "event list \<Rightarrow> bool" where
  "clean evs = list_all (\<lambda>ev. raised ev = None) evs"

text \<open>
  A join of the dispatched tasks or a read of \<^verbatim>\<open>results\<close>; what may follow the join: reads of
  \<^verbatim>\<open>results\<close> and the printed error.
\<close>

fun joins_or_reads :: "event \<Rightarrow> bool" where
  "joins_or_reads (Gather ts r) = True"
| "joins_or_reads (ReadResults t r) = True"
| "joins_or_reads ev = False"

fun after_join :: "event \<Rightarrow> bool" where
  "after_join (ReadResults t r) = True"
| "after_join (Print s) = True"
| "after_join ev = False"

text \<open>
  The events of lines 158 to 180: the dispatches of Coordination, of the consultations and of
  Patient Care Management, the join and the reads of \<^verbatim>\<open>results\<close>.
\<close>

fun stage_event :: "event \<Rightarrow> bool" where
  "stage_event (AssignTask t ex r) =
     (name t = ''Treatment Coordination'' \<or> name t = ''Specialist Consultation''
      \<or> name t = ''Patient Care Management'')"
| "stage_event (Gather ts r) = True"
| "stage_event (ReadResults t r) = True"
| "stage_event ev = False"

section \<open>Postconditions of a step\<close>

text \<open>
  \<open>emits m Q\<close>: from any log, \<open>m\<close> only appends events, and \<open>Q\<close> holds of the appended events
  and of the result. \<open>fail_fast\<close>: nothing raised in the appended events, except that a raising
  library call is the last of them and its exception is the result. \<open>fanned_out\<close>: the loop
  over the referrals either dispatched one consultation per item, in order, or a dispatch
  raised.
\<close>

definition emits :: "'a io \<Rightarrow> (event list \<Rightarrow> exn + 'a \<Rightarrow> bool) \<Rightarrow> bool" where
  "emits m Q = (\<forall>tr. \<exists>evs. snd (m tr) = tr @ evs \<and> Q evs (fst (m tr)))"

definition fail_fast :: "event list \<Rightarrow> exn + 'a \<Rightarrow> bool" where
  "fail_fast evs r =
     (case r of
        Inr x \<Rightarrow> clean evs
      | Inl e \<Rightarrow> clean evs \<or> (\<exists>pre ev. evs = pre @ [ev] \<and> clean pre \<and> raised ev = Some e))"

definition fanned_out :: "pyval list \<Rightarrow> task list \<Rightarrow> event list \<Rightarrow> exn + task list \<Rightarrow> bool" where
  "fanned_out items acc evs r =
     (case r of
        Inr ts \<Rightarrow> ts = acc @ map specialist_task items
                 \<and> dispatched evs = map specialist_task items
                 \<and> \<not> list_ex fan_out_cut_short evs
      | Inl e \<Rightarrow> list_ex fan_out_cut_short evs)"

text \<open>
  \<open>launched\<close>: the loop over the referrals either logged exactly one dispatch per item, each
  returned normally, or it raised before any join or read. \<open>joined\<close>: from the Coordination
  dispatch on, either the step raised before any join or read, or the log is the Coordination
  dispatch, one consultation dispatch per referral and the Patient Care Management dispatch,
  all returned normally, then one join over exactly these tasks, then only reads of
  \<^verbatim>\<open>results\<close>, and none of them unless the join returned normally.
\<close>

definition launched :: "pyval list \<Rightarrow> task list \<Rightarrow> event list \<Rightarrow> exn + task list \<Rightarrow> bool" where
  "launched items acc evs r =
     (case r of
        Inr ts \<Rightarrow> ts = acc @ map specialist_task items
                 \<and> evs = map (\<lambda>x. AssignTask (specialist_task x) dental_specialist None) items
      | Inl e \<Rightarrow> list_all (\<lambda>ev. \<not> joins_or_reads ev) evs)"

definition joined :: "pyval \<Rightarrow> pyval \<Rightarrow> event list \<Rightarrow> exn + pyval \<Rightarrow> bool" where
  "joined pd plan evs r =
     (isl r \<and> list_all (\<lambda>ev. \<not> joins_or_reads ev) evs
      \<or> (\<exists>items out post.
            bind_exn (py_subscript plan ''specialist_referrals'') py_iter = Inr items
            \<and> evs = AssignTask (coordination_task plan) treatment_coordinator None
                    # map (\<lambda>x. AssignTask (specialist_task x) dental_specialist None) items
                    @ [AssignTask (care_task pd) patient_care_coordinator None,
                       Gather ([coordination_task plan, care_task pd] @ map specialist_task items) out]
                    @ post
            \<and> list_all after_join post
            \<and> (out = None \<or> post = [] \<and> isl r)))"

section \<open>Concrete inputs\<close>

text \<open>
  The patient and the examination result of the end-to-end scenario, the plan
  \<^verbatim>\<open>create_treatment_plan\<close> makes of it, further inputs, and two libraries: one in which every
  call succeeds and the examination yields a given result, and one whose treatment coordinator
  rejects every task.
\<close>

definition patient_P1 :: pyval where
  "patient_P1 = PDict [(PStr ''id'', PStr ''P1'')]"

definition ortho_referral :: pyval where
  "ortho_referral = PDict [(PStr ''specialist'', PStr ''ortho'')]"

definition endo_referral :: pyval where
  "endo_referral = PDict [(PStr ''specialist'', PStr ''endo''), (PStr ''tooth'', PInt 14)]"

definition scenario_examination :: pyval where
  "scenario_examination =
     PDict [(PStr ''restorative_needs'', PList []),
            (PStr ''referral_needs'', PList [ortho_referral]),
            (PStr ''priority_treatments'', PList [])]"

definition scenario_plan :: pyval where
  "scenario_plan =
     PDict [(PStr ''preventive_care'', preventive_care_literal),
            (PStr ''restorative_care'', PList []),
            (PStr ''specialist_referrals'', PList [ortho_referral]),
            (PStr ''estimated_timeline'', PStr ''12 months''),
            (PStr ''priority_procedures'', PList [])]"

definition two_referral_examination :: pyval where
  "two_referral_examination =
     PDict [(PStr ''referral_needs'', PList [ortho_referral, endo_referral])]"

definition two_referral_plan :: pyval where
  "two_referral_plan =
     PDict [(PStr ''preventive_care'', preventive_care_literal),
            (PStr ''restorative_care'', PList []),
            (PStr ''specialist_referrals'', PList [ortho_referral, endo_referral]),
            (PStr ''estimated_timeline'', PStr ''12 months''),
            (PStr ''priority_procedures'', PList [])]"

definition no_cleaning_plan :: pyval where
  "no_cleaning_plan =
     PDict [(PStr ''preventive_care'', PDict [(PStr ''immediate_cleaning'', PBool False)]),
            (PStr ''specialist_referrals'', PList [])]"

definition immediate_cleaning_plan :: pyval where
  "immediate_cleaning_plan =
     PDict [(PStr ''preventive_care'', PDict [(PStr ''immediate_cleaning'', PBool True)]),
            (PStr ''specialist_referrals'', PList [])]"

definition cooperative_world :: "pyval \<Rightarrow> world" where
  "cooperative_world er =
     \<lparr>assign_task = (\<lambda>tr t ex. None),
      complete = (\<lambda>tr t. Inr er),
      gather = (\<lambda>tr ts. None),
      results = (\<lambda>tr t. Inr (PDict [(PStr ''status'', PStr ''completed'')]))\<rparr>"

definition unavailable_coordinator_world :: "pyval \<Rightarrow> world" where
  "unavailable_coordinator_world er =
     \<lparr>assign_task = (\<lambda>tr t ex.
        if ex = treatment_coordinator then Some (Exn ''RuntimeError'' ''worker unavailable'')
        else None),
      complete = (\<lambda>tr t. Inr er),
      gather = (\<lambda>tr ts. None),
      results = (\<lambda>tr t. Inr (PDict [(PStr ''status'', PStr ''completed'')]))\<rparr>"

text \<open>
  A library whose dental specialist rejects every task, and one in which awaiting the
  completion of the examination is cancelled (\<^verbatim>\<open>asyncio.CancelledError\<close> is a
  \<^verbatim>\<open>BaseException\<close>, not an \<^verbatim>\<open>Exception\<close>).
\<close>

definition unavailable_specialist_world :: "pyval \<Rightarrow> world" where
  "unavailable_specialist_world er =
     \<lparr>assign_task = (\<lambda>tr t ex.
        if ex = dental_specialist then Some (Exn ''RuntimeError'' ''worker unavailable'')
        else None),
      complete = (\<lambda>tr t. Inr er),
      gather = (\<lambda>tr ts. None),
      results = (\<lambda>tr t. Inr (PDict [(PStr ''status'', PStr ''completed'')]))\<rparr>"

definition cancelled_examination_world :: world where
  "cancelled_examination_world =
     \<lparr>assign_task = (\<lambda>tr t ex. None),
      complete = (\<lambda>tr t. Inl (BaseExn ''CancelledError'' [])),
      gather = (\<lambda>tr ts. None),
      results = (\<lambda>tr t. Inr (PDict [(PStr ''status'', PStr ''completed'')]))\<rparr>"

section \<open>Properties of the treatment plan and of the care plan\<close>

lemma create_treatment_plan_dict:
  "create_treatment_plan (PDict er) =
     Inr (PDict [(PStr ''preventive_care'', preventive_care_literal),
                 (PStr ''restorative_care'',
                    (case map_of er (PStr ''restorative_needs'') of None \<Rightarrow> PList [] | Some v \<Rightarrow> v)),
                 (PStr ''specialist_referrals'',
                    (case map_of er (PStr ''referral_needs'') of None \<Rightarrow> PList [] | Some v \<Rightarrow> v)),
                 (PStr ''estimated_timeline'', PStr ''12 months''),
                 (PStr ''priority_procedures'',
                    (case map_of er (PStr ''priority_treatments'') of None \<Rightarrow> PList [] | Some v \<Rightarrow> v))])"
  by (simp add: create_treatment_plan_def bind_exn_def)

lemma create_treatment_plan_Inr:
  assumes "create_treatment_plan er = Inr plan"
  shows "\<exists>kv. er = PDict kv"
  using assms by (cases er) (simp_all add: create_treatment_plan_def bind_exn_def)

text \<open>
  C4 (as stated, refuted): the value \<^verbatim>\<open>create_treatment_plan\<close> returns depends on its argument.
  An examination result with one referral and an empty examination result give different
  plans.
\<close>

theorem create_treatment_plan_depends_on_input:
  "create_treatment_plan
     (PDict [(PStr ''referral_needs'', PList [PDict [(PStr ''specialist'', PStr ''ortho'')]])])
   \<noteq> create_treatment_plan (PDict [])"
  by (simp add: create_treatment_plan_dict)

text \<open>
  C4 (amended): for a dictionary argument \<^verbatim>\<open>create_treatment_plan\<close> returns a dictionary with the
  five keys of the source; its \<^verbatim>\<open>preventive_care\<close> and \<^verbatim>\<open>estimated_timeline\<close> entries are the
  literals of the source, whatever the argument, and its \<^verbatim>\<open>restorative_care\<close>,
  \<^verbatim>\<open>specialist_referrals\<close> and \<^verbatim>\<open>priority_procedures\<close> entries are what the argument's
  \<^verbatim>\<open>.get\<close> gives for \<^verbatim>\<open>restorative_needs\<close>, \<^verbatim>\<open>referral_needs\<close> and \<^verbatim>\<open>priority_treatments\<close>
  with the empty list as default.
\<close>

theorem create_treatment_plan_entries:
  "\<exists>entries.
     create_treatment_plan (PDict er) = Inr (PDict entries)
     \<and> map fst entries =
         [PStr ''preventive_care'', PStr ''restorative_care'', PStr ''specialist_referrals'',
          PStr ''estimated_timeline'', PStr ''priority_procedures'']
     \<and> py_subscript (PDict entries) ''preventive_care'' = Inr preventive_care_literal
     \<and> py_subscript (PDict entries) ''estimated_timeline'' = Inr (PStr ''12 months'')
     \<and> py_subscript (PDict entries) ''restorative_care'' =
         py_get (PDict er) ''restorative_needs'' (PList [])
     \<and> py_subscript (PDict entries) ''specialist_referrals'' =
         py_get (PDict er) ''referral_needs'' (PList [])
     \<and> py_subscript (PDict entries) ''priority_procedures'' =
         py_get (PDict er) ''priority_treatments'' (PList [])"
  by (simp add: create_treatment_plan_dict)

lemma design_treatment_plan_raises:
  "design_treatment_plan impl (PDict prefs) =
     Inl (AttributeError ''PatientCenteredCare'' ''_identify_alternatives'')"
  by (simp add: design_treatment_plan_def bind_exn_def self_call_def
      PatientCenteredCare_attributes_def)

lemma design_treatment_plan_never_returns: "\<exists>e. design_treatment_plan impl p = Inl e"
  by (cases p)
    (simp_all add: design_treatment_plan_def bind_exn_def self_call_def
      PatientCenteredCare_attributes_def)

text \<open>
  C9: \<^verbatim>\<open>create_care_plan\<close> returns no dictionary. For a preferences mapping it raises the
  \<^verbatim>\<open>AttributeError\<close> of the lookup of \<^verbatim>\<open>_identify_alternatives\<close>, which the class does not
  define, whatever the other helpers would do; for any other argument it raises as well.
\<close>

theorem create_care_plan_always_raises:
  "create_care_plan impl (PDict prefs) =
     Inl (AttributeError ''PatientCenteredCare'' ''_identify_alternatives'')
   \<and> ''_identify_alternatives'' \<notin> set PatientCenteredCare_attributes
   \<and> (\<exists>e. create_care_plan impl p = Inl e)"
proof -
  have "create_care_plan impl (PDict prefs) =
          Inl (AttributeError ''PatientCenteredCare'' ''_identify_alternatives'')"
    by (simp add: create_care_plan_def design_treatment_plan_raises bind_exn_def)
  moreover have "''_identify_alternatives'' \<notin> set PatientCenteredCare_attributes"
    by (simp add: PatientCenteredCare_attributes_def)
  moreover obtain e where "design_treatment_plan impl p = Inl e"
    using design_treatment_plan_never_returns by blast
  then have "\<exists>e. create_care_plan impl p = Inl e"
    by (simp add: create_care_plan_def bind_exn_def)
  ultimately show ?thesis by blast
qed

section \<open>Steps and their logs\<close>

lemma emitsI: "(\<And>tr. \<exists>evs. snd (m tr) = tr @ evs \<and> Q evs (fst (m tr))) \<Longrightarrow> emits m Q"
  by (simp add: emits_def)

lemma emitsD: "emits m Q \<Longrightarrow> m tr = (r, tr') \<Longrightarrow> \<exists>evs. tr' = tr @ evs \<and> Q evs r"
  unfolding emits_def by (metis fst_conv snd_conv)

lemma emits_return: "Q [] (Inr x) \<Longrightarrow> emits (return_io x) Q"
  by (simp add: emits_def return_io_def)

lemma emits_lift: "Q [] r \<Longrightarrow> emits (lift_io r) Q"
  by (simp add: emits_def lift_io_def)

lemma emits_bind:
  assumes m: "emits m Q1"
    and f: "\<And>x. emits (f x) (Q2 x)"
    and fail: "\<And>evs e. Q1 evs (Inl e) \<Longrightarrow> Q evs (Inl e)"
    and seq: "\<And>evs1 x evs2 r. Q1 evs1 (Inr x) \<Longrightarrow> Q2 x evs2 r \<Longrightarrow> Q (evs1 @ evs2) r"
  shows "emits (bind_io m f) Q"
proof (rule emitsI)
  fix tr
  obtain r1 tr1 where m1: "m tr = (r1, tr1)" by (cases "m tr")
  from emitsD[OF m m1] obtain evs1 where e1: "tr1 = tr @ evs1" "Q1 evs1 r1" by blast
  show "\<exists>evs. snd (bind_io m f tr) = tr @ evs \<and> Q evs (fst (bind_io m f tr))"
  proof (cases r1)
    case (Inl e)
    then show ?thesis using m1 e1 fail by (auto simp: bind_io_def)
  next
    case (Inr x)
    obtain r2 tr2 where m2: "f x tr1 = (r2, tr2)" by (cases "f x tr1")
    from emitsD[OF f m2] obtain evs2 where e2: "tr2 = tr1 @ evs2" "Q2 x evs2 r2" by blast
    have "bind_io m f tr = (r2, tr @ (evs1 @ evs2))"
      using m1 Inr m2 e1 e2 by (simp add: bind_io_def)
    then show ?thesis using seq[OF e1(2)[unfolded Inr] e2(2)] by auto
  qed
qed

lemma emits_if:
  "(c \<Longrightarrow> emits a Q) \<Longrightarrow> (\<not> c \<Longrightarrow> emits b Q) \<Longrightarrow> emits (if c then a else b) Q"
  by simp

lemma emits_assign:
  "(\<And>r. Q [AssignTask t ex r] (case r of None \<Rightarrow> Inr () | Some e \<Rightarrow> Inl e)) \<Longrightarrow>
   emits (director_assign_task w t ex) Q"
  by (simp add: emits_def director_assign_task_def Let_def)

lemma emits_complete:
  "(\<And>r. Q [TaskComplete t r] r) \<Longrightarrow> emits (task_complete w t) Q"
  by (simp add: emits_def task_complete_def Let_def)

lemma emits_gather:
  "(\<And>r. Q [Gather ts r] (case r of None \<Rightarrow> Inr () | Some e \<Rightarrow> Inl e)) \<Longrightarrow>
   emits (asyncio_gather w ts) Q"
  by (simp add: emits_def asyncio_gather_def Let_def)

lemma emits_results:
  "(\<And>r. Q [ReadResults t r] r) \<Longrightarrow> emits (task_results w t) Q"
  by (simp add: emits_def task_results_def Let_def)

lemma emits_plan_call:
  "Q [PlanCreation er] (create_treatment_plan er) \<Longrightarrow> emits (create_treatment_plan_call er) Q"
  by (simp add: emits_def create_treatment_plan_call_def)

lemma bind_ioE:
  assumes "bind_io m f tr = (r, tr')"
  obtains (raise) e where "m tr = (Inl e, tr')" "r = Inl e"
        | (continue) x tr1 where "m tr = (Inr x, tr1)" "f x tr1 = (r, tr')"
  using assms by (auto simp: bind_io_def split: prod.splits sum.splits)

lemma lift_io_eq [simp]: "lift_io r tr = (r', tr') \<longleftrightarrow> r' = r \<and> tr' = tr"
  by (auto simp: lift_io_def)

lemma return_io_eq [simp]: "return_io x tr = (r', tr') \<longleftrightarrow> r' = Inr x \<and> tr' = tr"
  by (auto simp: return_io_def)

lemma dispatch_run:
  "bind_io (director_assign_task w t ex) (\<lambda>_. return_io t) tr =
     ((case assign_task w tr t ex of None \<Rightarrow> Inr t | Some e \<Rightarrow> Inl e),
      tr @ [AssignTask t ex (assign_task w tr t ex)])"
  by (simp add: bind_io_def director_assign_task_def return_io_def Let_def split: option.splits)

lemmas dispatch_runs =
  dispatch_run [of _ "exam_task pd" general_dentist, folded initial_examination_def]
  dispatch_run [of _ "hygiene_task pid ct" dental_hygienist, folded schedule_hygiene_care_def]
  dispatch_run [of _ "coordination_task plan" treatment_coordinator, folded coordinate_treatment_def]
  dispatch_run [of _ "specialist_task cd" dental_specialist, folded specialist_consultation_def]
  dispatch_run [of _ "care_task pi" patient_care_coordinator, folded manage_patient_care_def]
  for pd pid ct plan cd pi

lemma asyncio_gather_eq:
  "asyncio_gather w ts tr = (r, tr') \<longleftrightarrow>
     tr' = tr @ [Gather ts (gather w tr ts)]
     \<and> r = (case gather w tr ts of None \<Rightarrow> Inr () | Some e \<Rightarrow> Inl e)"
  by (auto simp: asyncio_gather_def Let_def)

lemma task_results_eq:
  "task_results w t tr = (r, tr') \<longleftrightarrow>
     tr' = tr @ [ReadResults t (results w tr t)] \<and> r = results w tr t"
  by (auto simp: task_results_def Let_def)

lemma task_complete_eq:
  "task_complete w t tr = (r, tr') \<longleftrightarrow>
     tr' = tr @ [TaskComplete t (complete w tr t)] \<and> r = complete w tr t"
  by (auto simp: task_complete_def Let_def)

lemma task_names [simp]:
  "name (exam_task pd) = ''Initial Examination''"
  "name (hygiene_task pid ct) = ''Dental Hygiene''"
  "name (coordination_task plan) = ''Treatment Coordination''"
  "name (specialist_task cd) = ''Specialist Consultation''"
  "name (care_task pi) = ''Patient Care Management''"
  by (simp_all add: exam_task_def hygiene_task_def coordination_task_def specialist_task_def
      care_task_def)

lemma dispatched_append [simp]: "dispatched (xs @ ys) = dispatched xs @ dispatched ys"
  by (induction xs rule: dispatched.induct) simp_all

lemma dispatched_named_append [simp]:
  "dispatched_named n (xs @ ys) = dispatched_named n xs @ dispatched_named n ys"
  by (simp add: dispatched_named_def)

lemma dispatched_named_Nil [simp]: "dispatched_named n [] = []"
  by (simp add: dispatched_named_def)

lemma dispatched_named_specialist [simp]:
  "dispatched_named ''Specialist Consultation'' (map (\<lambda>x. AssignTask (specialist_task x) ex r) xs)
     = map specialist_task xs"
  by (induction xs) (simp_all add: dispatched_named_def specialist_task_def)

lemma filter_name_specialist [simp]:
  "filter (\<lambda>t. name t = ''Specialist Consultation'') (map specialist_task xs) = map specialist_task xs"
  by (induction xs) (simp_all add: specialist_task_def)

lemma clean_append [simp]: "clean (xs @ ys) \<longleftrightarrow> clean xs \<and> clean ys"
  by (simp add: clean_def)

lemma clean_Nil [simp]: "clean []"
  by (simp add: clean_def)

lemma clean_single [simp]: "clean [ev] \<longleftrightarrow> raised ev = None"
  by (simp add: clean_def)

lemma clean_raised: "clean evs \<Longrightarrow> ev \<in> set evs \<Longrightarrow> raised ev = None"
  by (simp add: clean_def list_all_iff)

text \<open>
  Every task the driver builds asks only for expertise its executor has; the driver itself
  compares nothing and hands both to \<^verbatim>\<open>assign_task\<close>.
\<close>

lemma dispatches_within_expertise:
  "set (required_expertise (exam_task pd)) \<subseteq> set (expertise general_dentist)"
  "set (required_expertise (hygiene_task pid ct)) \<subseteq> set (expertise dental_hygienist)"
  "set (required_expertise (coordination_task plan)) \<subseteq> set (expertise treatment_coordinator)"
  "set (required_expertise (specialist_task cd)) \<subseteq> set (expertise dental_specialist)"
  "set (required_expertise (care_task pi)) \<subseteq> set (expertise patient_care_coordinator)"
  by (simp_all add: exam_task_def hygiene_task_def coordination_task_def specialist_task_def
      care_task_def general_dentist_def dental_hygienist_def treatment_coordinator_def
      dental_specialist_def patient_care_coordinator_def)

subsection \<open>The fan-out loop\<close>

lemma specialist_loop_fanned_out:
  "emits (specialist_loop w items acc) (fanned_out items acc)"
proof (induction items arbitrary: acc)
  case Nil
  show ?case by (simp add: emits_return fanned_out_def)
next
  case (Cons referral rest)
  have step: "emits (specialist_consultation w referral)
     (\<lambda>evs r. case r of Inr t \<Rightarrow> t = specialist_task referral
                            \<and> evs = [AssignTask t dental_specialist None]
               | Inl e \<Rightarrow> list_ex fan_out_cut_short evs)"
    by (rule emitsI) (simp add: dispatch_runs split: option.splits)
  show ?case
    unfolding specialist_loop.simps
    by (rule emits_bind[OF step Cons.IH])
       (auto simp: fanned_out_def split: sum.splits)
qed

lemma emits_collect_results:
  "emits (collect_results w ts) (\<lambda>evs r. dispatched evs = [])"
proof (induction ts)
  case Nil
  show ?case by (simp add: emits_return)
next
  case (Cons t ts)
  show ?case
    unfolding collect_results.simps
    apply (rule emits_bind[where ?Q1.0 = "\<lambda>evs r. dispatched evs = []" and ?Q2.0 = "\<lambda>x evs r. dispatched evs = []"])
       apply (rule emits_results, simp)
      apply (rule emits_bind[OF Cons.IH, where ?Q2.0 = "\<lambda>x evs r. dispatched evs = []"])
        apply (rule emits_return, simp)
       apply simp_all
    done
qed

lemma from_coordination_fan_out:
  assumes refs: "py_subscript plan ''specialist_referrals'' = Inr (PList referrals)"
    and run: "workflow_from_coordination w pd er plan tr = (r, tr')"
  shows "\<exists>evs. tr' = tr @ evs \<and>
           (list_ex fan_out_cut_short evs \<or>
            dispatched_named ''Specialist Consultation'' evs = map specialist_task referrals)"
  using run unfolding workflow_from_coordination_def
  apply (elim bind_ioE)
  apply (auto simp: refs dispatch_runs asyncio_gather_eq task_results_eq fanned_out_def dispatched_named_def
       split: option.splits dest!: emitsD[OF specialist_loop_fanned_out] emitsD[OF emits_collect_results])
  done

subsection \<open>Only stage events from Coordination on\<close>

lemma stage_bind:
  "emits m (\<lambda>evs r. list_all stage_event evs) \<Longrightarrow>
   (\<And>x. emits (f x) (\<lambda>evs r. list_all stage_event evs)) \<Longrightarrow>
   emits (bind_io m f) (\<lambda>evs r. list_all stage_event evs)"
  by (erule emits_bind) simp_all

lemma stage_loop:
  "emits (specialist_loop w items acc) (\<lambda>evs r. list_all stage_event evs)"
proof (induction items arbitrary: acc)
  case Nil
  show ?case by (simp add: emits_return)
next
  case (Cons referral rest)
  show ?case
    unfolding specialist_loop.simps specialist_consultation_def
    by (intro stage_bind emits_assign emits_return Cons.IH) simp_all
qed

lemma stage_collect:
  "emits (collect_results w ts) (\<lambda>evs r. list_all stage_event evs)"
proof (induction ts)
  case Nil
  show ?case by (simp add: emits_return)
next
  case (Cons t ts)
  show ?case
    unfolding collect_results.simps
    by (intro stage_bind emits_results emits_return Cons.IH) simp_all
qed

lemma stage_from_coordination:
  "emits (workflow_from_coordination w pd er plan) (\<lambda>evs r. list_all stage_event evs)"
  unfolding workflow_from_coordination_def coordinate_treatment_def manage_patient_care_def
  by (intro stage_bind emits_assign emits_return emits_lift emits_gather emits_results
        stage_loop stage_collect) simp_all

lemma from_coordination_first:
  "emits (workflow_from_coordination w pd er plan)
     (\<lambda>evs r. \<exists>out rest. evs = AssignTask (coordination_task plan) treatment_coordinator out # rest)"
  unfolding workflow_from_coordination_def manage_patient_care_def
proof (rule emits_bind[where
      ?Q1.0 = "\<lambda>evs r. \<exists>out. evs = [AssignTask (coordination_task plan) treatment_coordinator out]"
      and ?Q2.0 = "\<lambda>x evs r. list_all stage_event evs"], goal_cases)
  case 1
  show ?case by (rule emitsI) (simp add: dispatch_runs)
next
  case (2 x)
  show ?case
    by (intro stage_bind emits_assign emits_return emits_lift emits_gather emits_results
        stage_loop stage_collect) simp_all
qed auto

lemma stage_no_hygiene:
  "list_all stage_event evs \<Longrightarrow> dispatched_named ''Dental Hygiene'' evs = []"
proof (induction evs)
  case Nil
  show ?case by simp
next
  case (Cons ev evs)
  then show ?case by (cases ev) (auto simp: dispatched_named_def)
qed

lemma stage_no_plan_creation:
  "list_all stage_event evs \<Longrightarrow> PlanCreation er \<notin> set evs"
  by (induction evs) auto

lemma stage_no_task_complete:
  "list_all stage_event evs \<Longrightarrow> TaskComplete t r \<notin> set evs"
  by (induction evs) auto

subsection \<open>The log around the join\<close>

lemma lift_io_eq_flipped: "lift_io r tr = (r', tr') \<longleftrightarrow> r = r' \<and> tr' = tr"
  by (auto simp: lift_io_def)

lemma launches_no_join [simp]:
  "list_all (\<lambda>ev. \<not> joins_or_reads ev) (map (\<lambda>x. AssignTask (f x) ex out) xs)"
  by (induction xs) simp_all

lemma specialist_loop_launched:
  "emits (specialist_loop w items acc) (launched items acc)"
proof (induction items arbitrary: acc)
  case Nil
  show ?case by (simp add: emits_return launched_def)
next
  case (Cons referral rest)
  have step: "emits (specialist_consultation w referral)
     (\<lambda>evs r. case r of Inr t \<Rightarrow> t = specialist_task referral
                            \<and> evs = [AssignTask t dental_specialist None]
               | Inl e \<Rightarrow> list_all (\<lambda>ev. \<not> joins_or_reads ev) evs)"
    by (rule emitsI) (simp add: dispatch_runs split: option.splits)
  show ?case
    unfolding specialist_loop.simps
    by (rule emits_bind[OF step Cons.IH])
       (auto simp: launched_def split: sum.splits)
qed

lemma collect_results_reads:
  "emits (collect_results w ts) (\<lambda>evs r. list_all after_join evs)"
proof (induction ts)
  case Nil
  show ?case by (simp add: emits_return)
next
  case (Cons t ts)
  show ?case
    unfolding collect_results.simps
    apply (rule emits_bind[where ?Q1.0 = "\<lambda>evs r. list_all after_join evs"
          and ?Q2.0 = "\<lambda>x evs r. list_all after_join evs"])
       apply (rule emits_results, simp)
      apply (rule emits_bind[OF Cons.IH, where ?Q2.0 = "\<lambda>x evs r. list_all after_join evs"])
        apply (rule emits_return, simp)
       apply simp_all
    done
qed

lemma from_coordination_joined:
  assumes run: "workflow_from_coordination w pd er plan tr = (r, tr')"
  shows "\<exists>evs. tr' = tr @ evs \<and> joined pd plan evs r"
  using run unfolding workflow_from_coordination_def
  apply (elim bind_ioE)
  apply (auto simp del: lift_io_eq
       simp add: lift_io_eq_flipped dispatch_runs asyncio_gather_eq task_results_eq launched_def
         joined_def bind_exn_def
       split: option.splits dest!: emitsD[OF specialist_loop_launched] emitsD[OF collect_results_reads])
  done

subsection \<open>Nothing follows a raising call\<close>

lemma ff_bind:
  assumes "emits m fail_fast" and "\<And>x. emits (f x) fail_fast"
  shows "emits (bind_io m f) fail_fast"
proof (rule emits_bind[OF assms])
  fix evs e assume "fail_fast evs (Inl e :: exn + 'a)"
  then show "fail_fast evs (Inl e :: exn + 'b)" by (simp add: fail_fast_def)
next
  fix evs1 x evs2 and r :: "exn + 'b"
  assume a: "fail_fast evs1 (Inr x :: exn + 'a)" and b: "fail_fast evs2 r"
  show "fail_fast (evs1 @ evs2) r"
  proof (cases r)
    case (Inr y)
    with a b show ?thesis by (simp add: fail_fast_def)
  next
    case (Inl e)
    with b consider "clean evs2" | pre ev where "evs2 = pre @ [ev]" "clean pre" "raised ev = Some e"
      by (auto simp: fail_fast_def)
    then show ?thesis
    proof cases
      case 1
      with a Inl show ?thesis by (simp add: fail_fast_def)
    next
      case 2
      have "evs1 @ evs2 = (evs1 @ pre) @ [ev]" using 2 by simp
      moreover have "clean (evs1 @ pre)" using a 2 by (simp add: fail_fast_def)
      ultimately show ?thesis using Inl 2(3) unfolding fail_fast_def by (simp del: append_assoc)
    qed
  qed
qed

lemma ff_return: "emits (return_io x) fail_fast"
  by (rule emits_return) (simp add: fail_fast_def)

lemma ff_lift: "emits (lift_io r) fail_fast"
  by (rule emits_lift) (simp add: fail_fast_def split: sum.splits)

lemma fail_fast_single:
  "raised ev = (case r of Inl e \<Rightarrow> Some e | Inr x \<Rightarrow> None) \<Longrightarrow> fail_fast [ev] r"
  by (cases r) (simp_all add: fail_fast_def)

lemma ff_assign: "emits (director_assign_task w t ex) fail_fast"
  by (rule emits_assign) (simp add: fail_fast_single split: option.splits)

lemma ff_gather: "emits (asyncio_gather w ts) fail_fast"
  by (rule emits_gather) (simp add: fail_fast_single split: option.splits)

lemma ff_complete: "emits (task_complete w t) fail_fast"
  by (rule emits_complete) (simp add: fail_fast_single split: sum.splits)

lemma ff_results: "emits (task_results w t) fail_fast"
  by (rule emits_results) (simp add: fail_fast_single split: sum.splits)

lemma ff_plan_call: "emits (create_treatment_plan_call er) fail_fast"
  by (rule emits_plan_call) (simp add: fail_fast_def split: sum.splits)

lemmas ff_rules = ff_bind ff_return ff_lift ff_assign ff_gather ff_complete ff_results ff_plan_call

lemma ff_loop: "emits (specialist_loop w items acc) fail_fast"
proof (induction items arbitrary: acc)
  case Nil
  show ?case by (simp add: ff_return)
next
  case (Cons referral rest)
  show ?case
    unfolding specialist_loop.simps specialist_consultation_def
    by (intro ff_rules Cons.IH)
qed

lemma ff_collect: "emits (collect_results w ts) fail_fast"
proof (induction ts)
  case Nil
  show ?case by (simp add: ff_return)
next
  case (Cons t ts)
  show ?case
    unfolding collect_results.simps
    by (intro ff_rules Cons.IH)
qed

lemma ff_from_coordination: "emits (workflow_from_coordination w pd er plan) fail_fast"
  unfolding workflow_from_coordination_def coordinate_treatment_def manage_patient_care_def
  by (intro ff_rules ff_loop ff_collect)

lemma ff_from_plan: "emits (workflow_from_plan w pd er plan) fail_fast"
  unfolding workflow_from_plan_def schedule_hygiene_care_def
  by (intro ff_rules emits_if ff_from_coordination)

lemma ff_body: "emits (workflow_body w pd) fail_fast"
  unfolding workflow_body_def initial_examination_def
  by (intro ff_rules ff_from_plan)

subsection \<open>The paths through the driver\<close>

lemma workflow_from_plan_skip:
  assumes "py_subscript plan ''preventive_care'' = Inr pc"
    and "py_get pc ''immediate_cleaning'' PNone = Inr flag"
    and "\<not> truthy flag"
  shows "workflow_from_plan w pd er plan tr = workflow_from_coordination w pd er plan tr"
  using assms by (simp add: workflow_from_plan_def bind_io_def lift_io_def return_io_def)

lemma created_plan_preventive_care:
  assumes "create_treatment_plan er = Inr plan"
  shows "py_subscript plan ''preventive_care'' = Inr preventive_care_literal"
proof -
  obtain kv where "er = PDict kv" using create_treatment_plan_Inr[OF assms] by blast
  with assms show ?thesis by (auto simp: create_treatment_plan_dict)
qed

lemma no_immediate_cleaning:
  "py_get preventive_care_literal ''immediate_cleaning'' PNone = Inr PNone"
  by (simp add: preventive_care_literal_def)

lemma workflow_from_created_plan:
  assumes "create_treatment_plan er = Inr plan"
  shows "workflow_from_plan w pd er plan tr = workflow_from_coordination w pd er plan tr"
  by (rule workflow_from_plan_skip[OF created_plan_preventive_care[OF assms] no_immediate_cleaning])
     simp

lemma workflow_body_cases:
  assumes "workflow_body w pd tr = (r, tr')"
  obtains
    (exam_dispatch_raised) e where
      "tr' = tr @ [AssignTask (exam_task pd) general_dentist (Some e)]" "r = Inl e"
  | (exam_raised) e where
      "tr' = tr @ [AssignTask (exam_task pd) general_dentist None,
                   TaskComplete (exam_task pd) (Inl e)]" "r = Inl e"
  | (plan_raised) er e where
      "tr' = tr @ [AssignTask (exam_task pd) general_dentist None,
                   TaskComplete (exam_task pd) (Inr er), PlanCreation er]"
      "create_treatment_plan er = Inl e" "r = Inl e"
  | (planned) er plan where
      "create_treatment_plan er = Inr plan"
      "workflow_from_coordination w pd er plan
         (tr @ [AssignTask (exam_task pd) general_dentist None,
                TaskComplete (exam_task pd) (Inr er), PlanCreation er]) = (r, tr')"
proof -
  let ?a = "assign_task w tr (exam_task pd) general_dentist"
  let ?tr1 = "tr @ [AssignTask (exam_task pd) general_dentist None]"
  show ?thesis
  proof (cases ?a)
    case (Some e)
    with assms have "tr' = tr @ [AssignTask (exam_task pd) general_dentist (Some e)]" "r = Inl e"
      by (auto simp: workflow_body_def dispatch_runs elim!: bind_ioE)
    then show ?thesis by (rule exam_dispatch_raised)
  next
    case None
    show ?thesis
    proof (cases "complete w ?tr1 (exam_task pd)")
      case (Inl e)
      with assms None have "tr' = ?tr1 @ [TaskComplete (exam_task pd) (Inl e)]" "r = Inl e"
        by (auto simp: workflow_body_def dispatch_runs task_complete_eq elim!: bind_ioE)
      then show ?thesis using exam_raised by simp
    next
      case (Inr er)
      let ?tr3 = "tr @ [AssignTask (exam_task pd) general_dentist None,
                        TaskComplete (exam_task pd) (Inr er), PlanCreation er]"
      show ?thesis
      proof (cases "create_treatment_plan er")
        case (Inl e)
        with assms None Inr have "tr' = ?tr3" "r = Inl e"
          by (auto simp: workflow_body_def dispatch_runs task_complete_eq
              create_treatment_plan_call_def elim!: bind_ioE)
        then show ?thesis using plan_raised Inl by simp
      next
        case plan: (Inr plan)
        with assms None Inr have "workflow_from_plan w pd er plan ?tr3 = (r, tr')"
          by (auto simp: workflow_body_def dispatch_runs task_complete_eq
              create_treatment_plan_call_def elim!: bind_ioE)
        then have "workflow_from_coordination w pd er plan ?tr3 = (r, tr')"
          by (simp add: workflow_from_created_plan[OF plan])
        then show ?thesis using planned plan by simp
      qed
    qed
  qed
qed

lemma run_cases:
  assumes "run_dental_care_workflow w pd tr = (res, tr')"
  obtains
    (returned) r where "workflow_body w pd tr = (Inr r, tr')" "res = Inr r"
  | (caught) c m tr1 where
      "workflow_body w pd tr = (Inl (Exn c m), tr1)"
      "tr' = tr1 @ [Print (''Error in dental care workflow: '' @ m)]" "res = Inr PNone"
  | (propagated) c m where
      "workflow_body w pd tr = (Inl (BaseExn c m), tr')" "res = Inl (BaseExn c m)"
proof -
  obtain r tr1 where body: "workflow_body w pd tr = (r, tr1)" by (cases "workflow_body w pd tr")
  show ?thesis
  proof (cases r)
    case (Inr x)
    with assms body show ?thesis by (intro returned[of x]) (auto simp: run_dental_care_workflow_def)
  next
    case (Inl e)
    show ?thesis
    proof (cases e)
      case (Exn c m)
      with assms body Inl show ?thesis
        by (intro caught[of c m tr1]) (auto simp: run_dental_care_workflow_def)
    next
      case (BaseExn c m)
      with assms body Inl show ?thesis
        by (intro propagated[of c m]) (auto simp: run_dental_care_workflow_def)
    qed
  qed
qed

lemma run_body:
  assumes "run_dental_care_workflow w pd tr0 = (res, tr)"
  obtains r tr1 ps where "workflow_body w pd tr0 = (r, tr1)" "tr = tr1 @ ps"
    "ps = [] \<or> (\<exists>s. ps = [Print s])"
  using assms by (cases rule: run_cases) auto

lemma body_no_hygiene:
  assumes "workflow_body w pd [] = (r, tr)"
  shows "dispatched_named ''Dental Hygiene'' tr = []"
  using assms
proof (cases rule: workflow_body_cases)
  case (planned er plan)
  from emitsD[OF stage_from_coordination planned(2)]
  obtain evs where "tr = [AssignTask (exam_task pd) general_dentist None,
      TaskComplete (exam_task pd) (Inr er), PlanCreation er] @ evs" "list_all stage_event evs"
    by auto
  then show ?thesis using stage_no_hygiene[of evs] by (simp add: dispatched_named_def)
qed (simp_all add: dispatched_named_def)

lemma body_plan_after_exam:
  assumes "workflow_body w pd [] = (r, tr)" and "tr = pre @ PlanCreation er # post"
  shows "TaskComplete (exam_task pd) (Inr er) \<in> set pre"
  using assms(1)
proof (cases rule: workflow_body_cases)
  case (exam_dispatch_raised e)
  with assms(2) show ?thesis by (auto simp: Cons_eq_append_conv)
next
  case (exam_raised e)
  with assms(2) show ?thesis by (auto simp: Cons_eq_append_conv)
next
  case (plan_raised er' e)
  with assms(2) show ?thesis by (auto simp: Cons_eq_append_conv)
next
  case (planned er' plan)
  from emitsD[OF stage_from_coordination planned(2)]
  obtain evs where tr: "tr = [AssignTask (exam_task pd) general_dentist None,
      TaskComplete (exam_task pd) (Inr er'), PlanCreation er'] @ evs" and st: "list_all stage_event evs"
    by auto
  have "PlanCreation er \<notin> set evs" by (rule stage_no_plan_creation[OF st])
  with tr assms(2) show ?thesis
    by (auto simp: append_eq_Cons_conv)
qed

lemma body_plan_created:
  assumes body: "workflow_body w pd [] = (r, tr)"
    and exam: "TaskComplete t (Inr er) \<in> set tr"
  shows "PlanCreation er \<in> set tr"
  using body
proof (cases rule: workflow_body_cases)
  case (planned er' plan')
  from emitsD[OF stage_from_coordination planned(2)]
  obtain evs where tr: "tr = [AssignTask (exam_task pd) general_dentist None,
      TaskComplete (exam_task pd) (Inr er'), PlanCreation er'] @ evs"
    and st: "list_all stage_event evs" by auto
  with exam stage_no_task_complete[OF st] show ?thesis by auto
qed (insert exam, auto)

lemma body_fan_out:
  assumes body: "workflow_body w pd [] = (r, tr)"
    and planned: "PlanCreation er \<in> set tr"
    and plan: "create_treatment_plan er = Inr plan"
    and refs: "py_subscript plan ''specialist_referrals'' = Inr (PList referrals)"
    and ok: "\<not> list_ex fan_out_cut_short tr"
  shows "dispatched_named ''Specialist Consultation'' tr = map specialist_task referrals"
  using body
proof (cases rule: workflow_body_cases)
  case (exam_dispatch_raised e)
  with planned show ?thesis by simp
next
  case (exam_raised e)
  with planned show ?thesis by simp
next
  case (plan_raised er' e)
  with planned plan show ?thesis by simp
next
  case (planned er' plan')
  let ?tr3 = "[AssignTask (exam_task pd) general_dentist None,
               TaskComplete (exam_task pd) (Inr er'), PlanCreation er']"
  from emitsD[OF stage_from_coordination planned(2)]
  obtain evs where tr: "tr = ?tr3 @ evs" and st: "list_all stage_event evs" by auto
  from assms(2) tr stage_no_plan_creation[OF st] have "er' = er" by auto
  with planned(1) plan have "plan' = plan" by simp
  from from_coordination_fan_out[OF refs planned(2)[unfolded \<open>plan' = plan\<close>]] tr
  have "list_ex fan_out_cut_short evs \<or>
        dispatched_named ''Specialist Consultation'' evs = map specialist_task referrals"
    by auto
  with ok tr show ?thesis by (auto simp: dispatched_named_def)
qed

lemma body_coordination_dispatched:
  assumes body: "workflow_body w pd [] = (r, tr)"
    and planned: "PlanCreation er \<in> set tr"
    and plan: "create_treatment_plan er = Inr plan"
  shows "coordination_task plan \<in> set (dispatched tr)"
  using body
proof (cases rule: workflow_body_cases)
  case (exam_dispatch_raised e)
  with planned show ?thesis by simp
next
  case (exam_raised e)
  with planned show ?thesis by simp
next
  case (plan_raised er' e)
  with planned plan show ?thesis by simp
next
  case (planned er' plan')
  let ?tr3 = "[AssignTask (exam_task pd) general_dentist None,
               TaskComplete (exam_task pd) (Inr er'), PlanCreation er']"
  from emitsD[OF stage_from_coordination planned(2)]
  obtain evs where tr: "tr = ?tr3 @ evs" and st: "list_all stage_event evs" by auto
  from assms(2) tr stage_no_plan_creation[OF st] have "er' = er" by auto
  with planned(1) plan have "plan' = plan" by simp
  from emitsD[OF from_coordination_first planned(2)[unfolded \<open>plan' = plan\<close>]]
  obtain out rest where
    "tr = ?tr3 @ AssignTask (coordination_task plan) treatment_coordinator out # rest"
    by auto
  then show ?thesis by simp
qed

lemma body_joined:
  assumes body: "workflow_body w pd [] = (r, tr)"
    and reached: "list_ex joins_or_reads tr \<or> \<not> isl r"
  shows "\<exists>er plan items out post.
      create_treatment_plan er = Inr plan
    \<and> bind_exn (py_subscript plan ''specialist_referrals'') py_iter = Inr items
    \<and> tr = [AssignTask (exam_task pd) general_dentist None,
             TaskComplete (exam_task pd) (Inr er), PlanCreation er,
             AssignTask (coordination_task plan) treatment_coordinator None]
           @ map (\<lambda>x. AssignTask (specialist_task x) dental_specialist None) items
           @ [AssignTask (care_task pd) patient_care_coordinator None,
              Gather ([coordination_task plan, care_task pd] @ map specialist_task items) out]
           @ post
    \<and> list_all after_join post
    \<and> (out = None \<or> post = [] \<and> isl r)"
  using body
proof (cases rule: workflow_body_cases)
  case (exam_dispatch_raised e)
  with reached show ?thesis by simp
next
  case (exam_raised e)
  with reached show ?thesis by simp
next
  case (plan_raised er e)
  with reached show ?thesis by simp
next
  case (planned er plan)
  from from_coordination_joined[OF planned(2)] obtain evs
    where tr: "tr = [AssignTask (exam_task pd) general_dentist None,
                     TaskComplete (exam_task pd) (Inr er), PlanCreation er] @ evs"
      and j: "joined pd plan evs r" by auto
  from reached tr have "list_ex joins_or_reads evs \<or> \<not> isl r" by simp
  with j obtain items out post where
      items: "bind_exn (py_subscript plan ''specialist_referrals'') py_iter = Inr items"
    and evs: "evs = AssignTask (coordination_task plan) treatment_coordinator None
            # map (\<lambda>x. AssignTask (specialist_task x) dental_specialist None) items
            @ [AssignTask (care_task pd) patient_care_coordinator None,
               Gather ([coordination_task plan, care_task pd] @ map specialist_task items) out]
            @ post"
    and post: "list_all after_join post" "out = None \<or> post = [] \<and> isl r"
    unfolding joined_def by (auto simp: list_ex_iff list_all_iff)
  have "tr = [AssignTask (exam_task pd) general_dentist None,
             TaskComplete (exam_task pd) (Inr er), PlanCreation er,
             AssignTask (coordination_task plan) treatment_coordinator None]
           @ map (\<lambda>x. AssignTask (specialist_task x) dental_specialist None) items
           @ [AssignTask (care_task pd) patient_care_coordinator None,
              Gather ([coordination_task plan, care_task pd] @ map specialist_task items) out]
           @ post"
    using tr evs by simp
  with planned(1) items post show ?thesis by blast
qed

subsection \<open>Runs on the concrete inputs\<close>

lemma scenario_plan_created: "create_treatment_plan scenario_examination = Inr scenario_plan"
  by (simp add: scenario_examination_def scenario_plan_def create_treatment_plan_dict)

lemmas run_defs =
  run_dental_care_workflow_def workflow_body_def workflow_from_plan_def
  workflow_from_coordination_def dispatch_runs bind_io_def return_io_def lift_io_def
  task_complete_def asyncio_gather_def task_results_def
  create_treatment_plan_call_def create_treatment_plan_dict preventive_care_literal_def Let_def

lemmas scenario_defs =
  cooperative_world_def unavailable_coordinator_world_def scenario_examination_def
  two_referral_examination_def general_dentist_def treatment_coordinator_def

lemma two_referral_plan_created:
  "create_treatment_plan two_referral_examination = Inr two_referral_plan"
  by (simp add: two_referral_examination_def two_referral_plan_def create_treatment_plan_dict)

lemmas cut_short_defs =
  unavailable_specialist_world_def cancelled_examination_world_def dental_specialist_def
  patient_care_coordinator_def

section \<open>Properties of the workflow driver\<close>

text \<open>
  C1 (as stated, refuted): the examination completes with the scenario's result for the patient
  \<^verbatim>\<open>{"id": "P1"}\<close> and the plan has its one referral, yet no consultation is dispatched: the
  treatment coordinator rejects the Coordination task, which is dispatched first, and the
  exception ends the \<^verbatim>\<open>try\<close> block before the loop over the referrals.
\<close>

theorem scenario_cut_short_by_coordination:
  "TaskComplete (exam_task patient_P1) (Inr scenario_examination)
     \<in> set (snd (run_dental_care_workflow
                  (unavailable_coordinator_world scenario_examination) patient_P1 []))
   \<and> create_treatment_plan scenario_examination = Inr scenario_plan
   \<and> py_subscript scenario_plan ''specialist_referrals'' = Inr (PList [ortho_referral])
   \<and> dispatched_named ''Specialist Consultation''
        (snd (run_dental_care_workflow
                (unavailable_coordinator_world scenario_examination) patient_P1 []))
      = []"
  by (simp add: run_defs scenario_defs scenario_plan_created)
     (simp add: scenario_plan_def dispatched_named_def preventive_care_literal_def)

text \<open>
  C1 (amended): in an execution for the patient \<^verbatim>\<open>{"id": "P1"}\<close> in which the examination
  completes with the scenario's result and neither the Coordination dispatch nor a
  consultation dispatch raises, \<^verbatim>\<open>create_treatment_plan\<close> is invoked on that result; the plan
  it returns is the parameter of the Coordination task dispatched and has exactly one
  specialist referral; and exactly one task named Specialist Consultation is dispatched, with
  parameters \<^verbatim>\<open>{"specialist": "ortho"}\<close>.
\<close>

theorem end_to_end_scenario:
  assumes run: "run_dental_care_workflow w patient_P1 [] = (res, tr)"
    and exam: "TaskComplete t (Inr scenario_examination) \<in> set tr"
    and ok: "\<not> list_ex fan_out_cut_short tr"
  shows "\<exists>plan t'. PlanCreation scenario_examination \<in> set tr
    \<and> create_treatment_plan scenario_examination = Inr plan
    \<and> coordination_task plan \<in> set (dispatched tr)
    \<and> py_subscript plan ''specialist_referrals'' = Inr (PList [ortho_referral])
    \<and> dispatched_named ''Specialist Consultation'' tr = [t']
    \<and> parameters t' = PDict [(PStr ''specialist'', PStr ''ortho'')]"
proof -
  from run obtain r tr1 ps where body: "workflow_body w patient_P1 [] = (r, tr1)"
    and tr: "tr = tr1 @ ps" and ps: "ps = [] \<or> (\<exists>s. ps = [Print s])"
    by (rule run_body)
  obtain plan where plan: "create_treatment_plan scenario_examination = Inr plan"
    and refs: "py_subscript plan ''specialist_referrals'' = Inr (PList [ortho_referral])"
    by (simp add: scenario_examination_def create_treatment_plan_dict)
  from exam tr ps have "TaskComplete t (Inr scenario_examination) \<in> set tr1" by auto
  then have planned: "PlanCreation scenario_examination \<in> set tr1"
    by (rule body_plan_created[OF body])
  from body_coordination_dispatched[OF body planned plan] tr
  have coordinated: "coordination_task plan \<in> set (dispatched tr)" by simp
  from ok tr have "\<not> list_ex fan_out_cut_short tr1" by simp
  with planned
  have "dispatched_named ''Specialist Consultation'' tr1 = map specialist_task [ortho_referral]"
    by (rule body_fan_out[OF body _ plan refs])
  with tr ps
  have "dispatched_named ''Specialist Consultation'' tr = [specialist_task ortho_referral]"
    by (auto simp: dispatched_named_def)
  moreover have "parameters (specialist_task ortho_referral)
      = PDict [(PStr ''specialist'', PStr ''ortho'')]"
    by (simp add: specialist_task_def ortho_referral_def)
  moreover from planned tr have "PlanCreation scenario_examination \<in> set tr" by simp
  ultimately show ?thesis using plan refs coordinated by blast
qed

text \<open>
  The scenario with the library in which every call succeeds.
\<close>

theorem end_to_end_scenario_witness:
  "TaskComplete (exam_task patient_P1) (Inr scenario_examination)
     \<in> set (snd (run_dental_care_workflow (cooperative_world scenario_examination) patient_P1 []))
   \<and> \<not> list_ex fan_out_cut_short
         (snd (run_dental_care_workflow (cooperative_world scenario_examination) patient_P1 []))
   \<and> (\<exists>plan t'.
          PlanCreation scenario_examination
            \<in> set (snd (run_dental_care_workflow (cooperative_world scenario_examination)
                          patient_P1 []))
        \<and> create_treatment_plan scenario_examination = Inr plan
        \<and> coordination_task plan
            \<in> set (dispatched (snd (run_dental_care_workflow
                          (cooperative_world scenario_examination) patient_P1 [])))
        \<and> py_subscript plan ''specialist_referrals'' = Inr (PList [ortho_referral])
        \<and> dispatched_named ''Specialist Consultation''
             (snd (run_dental_care_workflow (cooperative_world scenario_examination) patient_P1 []))
           = [t']
        \<and> parameters t' = PDict [(PStr ''specialist'', PStr ''ortho'')])"
proof -
  let ?run = "run_dental_care_workflow (cooperative_world scenario_examination) patient_P1 []"
  have run: "?run = (fst ?run, snd ?run)" by simp
  have exam: "TaskComplete (exam_task patient_P1) (Inr scenario_examination) \<in> set (snd ?run)"
    by (simp add: run_defs scenario_defs)
  have ok: "\<not> list_ex fan_out_cut_short (snd ?run)"
    by (simp add: run_defs scenario_defs)
  from end_to_end_scenario[OF run exam ok] exam ok show ?thesis by blast
qed

text \<open>
  C2 (as stated, refuted): the plan has two referrals and one consultation is dispatched. The
  dental specialist rejects the first consultation; the exception ends the loop, and the
  second referral is never dispatched.
\<close>

theorem two_referrals_one_dispatch:
  "PlanCreation two_referral_examination
     \<in> set (snd (run_dental_care_workflow
                  (unavailable_specialist_world two_referral_examination) patient_P1 []))
   \<and> create_treatment_plan two_referral_examination = Inr two_referral_plan
   \<and> py_subscript two_referral_plan ''specialist_referrals''
       = Inr (PList [ortho_referral, endo_referral])
   \<and> dispatched_named ''Specialist Consultation''
        (snd (run_dental_care_workflow
                (unavailable_specialist_world two_referral_examination) patient_P1 []))
      = [specialist_task ortho_referral]"
  by (simp add: run_defs scenario_defs cut_short_defs two_referral_plan_created)
     (simp add: two_referral_plan_def dispatched_named_def preventive_care_literal_def)

text \<open>
  C2 (amended): in an execution in which neither the Coordination dispatch nor a consultation
  dispatch raises, if the plan created from the examination result has the list \<open>referrals\<close> under \<^verbatim>\<open>specialist_referrals\<close>, then the tasks named
  Specialist Consultation that are dispatched are as many as the referrals, follow their
  order, and the parameters of the i-th are the i-th referral.
\<close>

theorem fan_out_fidelity:
  assumes run: "run_dental_care_workflow w pd [] = (res, tr)"
    and planned: "PlanCreation er \<in> set tr"
    and plan: "create_treatment_plan er = Inr plan"
    and refs: "py_subscript plan ''specialist_referrals'' = Inr (PList referrals)"
    and ok: "\<not> list_ex fan_out_cut_short tr"
  shows "length (dispatched_named ''Specialist Consultation'' tr) = length referrals
    \<and> map parameters (dispatched_named ''Specialist Consultation'' tr) = referrals
    \<and> dispatched_named ''Specialist Consultation'' tr = map specialist_task referrals"
proof -
  from run obtain r tr1 ps where body: "workflow_body w pd [] = (r, tr1)"
    and tr: "tr = tr1 @ ps" and ps: "ps = [] \<or> (\<exists>s. ps = [Print s])"
    by (rule run_body)
  from planned tr ps have "PlanCreation er \<in> set tr1" by auto
  moreover from ok tr have "\<not> list_ex fan_out_cut_short tr1" by simp
  ultimately have "dispatched_named ''Specialist Consultation'' tr1 = map specialist_task referrals"
    by (rule body_fan_out[OF body _ plan refs])
  with tr ps have "dispatched_named ''Specialist Consultation'' tr = map specialist_task referrals"
    by (auto simp: dispatched_named_def)
  then show ?thesis by (simp add: comp_def specialist_task_def)
qed

text \<open>
  Two referrals, with the library in which every call succeeds.
\<close>

theorem fan_out_fidelity_witness:
  "PlanCreation two_referral_examination
     \<in> set (snd (run_dental_care_workflow (cooperative_world two_referral_examination) patient_P1 []))
   \<and> \<not> list_ex fan_out_cut_short
         (snd (run_dental_care_workflow (cooperative_world two_referral_examination) patient_P1 []))
   \<and> length (dispatched_named ''Specialist Consultation''
         (snd (run_dental_care_workflow (cooperative_world two_referral_examination) patient_P1 [])))
       = 2
   \<and> map parameters (dispatched_named ''Specialist Consultation''
         (snd (run_dental_care_workflow (cooperative_world two_referral_examination) patient_P1 [])))
       = [ortho_referral, endo_referral]"
proof -
  let ?run = "run_dental_care_workflow (cooperative_world two_referral_examination) patient_P1 []"
  have run: "?run = (fst ?run, snd ?run)" by simp
  have planned: "PlanCreation two_referral_examination \<in> set (snd ?run)"
    by (simp add: run_defs scenario_defs)
  have ok: "\<not> list_ex fan_out_cut_short (snd ?run)"
    by (simp add: run_defs scenario_defs)
  obtain plan where plan: "create_treatment_plan two_referral_examination = Inr plan"
    and refs: "py_subscript plan ''specialist_referrals'' = Inr (PList [ortho_referral, endo_referral])"
    by (simp add: two_referral_examination_def create_treatment_plan_dict)
  note fidelity = fan_out_fidelity[OF run planned plan refs ok]
  from fidelity have "length (dispatched_named ''Specialist Consultation'' (snd ?run)) = 2"
    by simp
  moreover from fidelity
  have "map parameters (dispatched_named ''Specialist Consultation'' (snd ?run))
          = [ortho_referral, endo_referral]"
    by blast
  ultimately show ?thesis using planned ok by blast
qed




text \<open>
  What \<^verbatim>\<open>except Exception\<close> does not catch leaves the method, and nothing is printed.
\<close>

lemma base_exception_propagates:
  assumes run: "run_dental_care_workflow w pd [] = (res, tr)"
    and ev: "ev \<in> set tr"
    and exn: "raised ev = Some (BaseExn c m)"
  shows "res = Inl (BaseExn c m) \<and> (\<exists>pre. tr = pre @ [ev] \<and> clean pre)"
  using run
proof (cases rule: run_cases)
  case (returned r)
  from emitsD[OF ff_body returned(1)] have "clean tr" by (simp add: fail_fast_def)
  with ev exn show ?thesis by (auto dest: clean_raised)
next
  case (caught c' m' tr1)
  from emitsD[OF ff_body caught(1)]
  consider "clean tr1"
    | pre ev' where "tr1 = pre @ [ev']" "clean pre" "raised ev' = Some (Exn c' m')"
    by (auto simp: fail_fast_def)
  then show ?thesis
  proof cases
    case 1
    with ev exn caught(2) show ?thesis by (auto dest: clean_raised)
  next
    case 2
    with ev exn caught(2) show ?thesis by (auto dest: clean_raised)
  qed
next
  case (propagated c' m')
  from emitsD[OF ff_body propagated(1)]
  consider "clean tr"
    | pre ev' where "tr = pre @ [ev']" "clean pre" "raised ev' = Some (BaseExn c' m')"
    by (auto simp: fail_fast_def)
  then show ?thesis
  proof cases
    case 1
    with ev exn show ?thesis by (auto dest: clean_raised)
  next
    case 2
    with ev exn have "ev = ev'" by (auto dest: clean_raised)
    with 2 exn propagated show ?thesis by simp
  qed
qed

text \<open>
  C5: wherever an execution invokes \<^verbatim>\<open>create_treatment_plan\<close>, the completion of the
  examination task has returned before, and its result is the argument of the invocation.
\<close>

theorem examination_before_plan_creation:
  assumes run: "run_dental_care_workflow w pd [] = (res, tr)"
    and at: "tr = pre @ PlanCreation er # post"
  shows "TaskComplete (exam_task pd) (Inr er) \<in> set pre"
  using run
proof (cases rule: run_cases)
  case (returned r)
  then show ?thesis using at by (auto dest: body_plan_after_exam)
next
  case (caught c m tr1)
  from at caught(2) obtain post' where "tr1 = pre @ PlanCreation er # post'"
    by (cases post rule: rev_cases) auto
  with caught(1) show ?thesis by (auto dest: body_plan_after_exam)
next
  case (propagated c m)
  then show ?thesis using at by (auto dest: body_plan_after_exam)
qed

text \<open>
  The successful scenario: the invocation is the third event, after the dispatch and the
  completion of the examination.
\<close>

theorem examination_before_plan_creation_witness:
  "snd (run_dental_care_workflow (cooperative_world scenario_examination) patient_P1 [])
     = [AssignTask (exam_task patient_P1) general_dentist None,
        TaskComplete (exam_task patient_P1) (Inr scenario_examination)]
       @ PlanCreation scenario_examination
       # drop 3 (snd (run_dental_care_workflow (cooperative_world scenario_examination)
                        patient_P1 []))
   \<and> TaskComplete (exam_task patient_P1) (Inr scenario_examination)
       \<in> set [AssignTask (exam_task patient_P1) general_dentist None,
              TaskComplete (exam_task patient_P1) (Inr scenario_examination)]"
proof -
  let ?run = "run_dental_care_workflow (cooperative_world scenario_examination) patient_P1 []"
  have run: "?run = (fst ?run, snd ?run)" by simp
  have at: "snd ?run = [AssignTask (exam_task patient_P1) general_dentist None,
        TaskComplete (exam_task patient_P1) (Inr scenario_examination)]
       @ PlanCreation scenario_examination # drop 3 (snd ?run)"
    by (simp add: run_defs cooperative_world_def scenario_examination_def)
  from examination_before_plan_creation[OF run at] at show ?thesis by blast
qed

text \<open>
  C6: lines 151 to 180, for any plan. If the \<^verbatim>\<open>preventive_care\<close> mapping of the plan has no
  truthy \<^verbatim>\<open>immediate_cleaning\<close> entry, the workflow goes on exactly as from the Coordination
  dispatch: no task named Dental Hygiene is dispatched, nothing is raised or printed for the
  skipped step, and the next event is the dispatch of the Coordination task.
\<close>

theorem hygiene_skipped_without_flag:
  assumes "py_subscript plan ''preventive_care'' = Inr pc"
    and "py_get pc ''immediate_cleaning'' PNone = Inr flag"
    and "\<not> truthy flag"
  shows "workflow_from_plan w pd er plan tr = workflow_from_coordination w pd er plan tr
    \<and> dispatched_named ''Dental Hygiene'' (snd (workflow_from_plan w pd er plan tr))
        = dispatched_named ''Dental Hygiene'' tr
    \<and> (\<exists>out rest. snd (workflow_from_plan w pd er plan tr)
          = tr @ AssignTask (coordination_task plan) treatment_coordinator out # rest)"
proof -
  have eq: "workflow_from_plan w pd er plan tr = workflow_from_coordination w pd er plan tr"
    by (rule workflow_from_plan_skip[OF assms])
  obtain r tr' where run: "workflow_from_coordination w pd er plan tr = (r, tr')"
    by (cases "workflow_from_coordination w pd er plan tr")
  from emitsD[OF stage_from_coordination run]
  have "dispatched_named ''Dental Hygiene'' tr' = dispatched_named ''Dental Hygiene'' tr"
    by (auto simp: stage_no_hygiene)
  moreover from emitsD[OF from_coordination_first run]
  have "\<exists>out rest. tr' = tr @ AssignTask (coordination_task plan) treatment_coordinator out # rest"
    by auto
  ultimately show ?thesis using eq run by simp
qed

text \<open>
  A plan whose flag is \<^verbatim>\<open>False\<close>.
\<close>

theorem hygiene_skipped_without_flag_witness:
  "py_subscript no_cleaning_plan ''preventive_care''
     = Inr (PDict [(PStr ''immediate_cleaning'', PBool False)])
   \<and> py_get (PDict [(PStr ''immediate_cleaning'', PBool False)]) ''immediate_cleaning'' PNone
     = Inr (PBool False)
   \<and> \<not> truthy (PBool False)
   \<and> dispatched_named ''Dental Hygiene''
       (snd (workflow_from_plan (cooperative_world PNone) patient_P1 PNone no_cleaning_plan []))
     = dispatched_named ''Dental Hygiene'' []
   \<and> (\<exists>out rest.
         snd (workflow_from_plan (cooperative_world PNone) patient_P1 PNone no_cleaning_plan [])
         = [] @ AssignTask (coordination_task no_cleaning_plan) treatment_coordinator out # rest)"
proof -
  have pc: "py_subscript no_cleaning_plan ''preventive_care''
      = Inr (PDict [(PStr ''immediate_cleaning'', PBool False)])"
    by (simp add: no_cleaning_plan_def)
  have flag: "py_get (PDict [(PStr ''immediate_cleaning'', PBool False)]) ''immediate_cleaning'' PNone
      = Inr (PBool False)"
    by simp
  have falsy: "\<not> truthy (PBool False)" by simp
  from hygiene_skipped_without_flag[OF pc flag falsy,
      of "cooperative_world PNone" patient_P1 PNone "[]"] pc flag falsy
  show ?thesis by blast
qed

text \<open>
  With a truthy flag the hygiene task is dispatched, before Coordination.
\<close>

lemma hygiene_dispatched_with_flag:
  "dispatched_named ''Dental Hygiene''
     (snd (workflow_from_plan (cooperative_world PNone) patient_P1 PNone immediate_cleaning_plan []))
   = [hygiene_task (PStr ''P1'') (PStr ''comprehensive_cleaning'')]"
  by (simp add: run_defs cooperative_world_def immediate_cleaning_plan_def patient_P1_def
      dispatched_named_def)

text \<open>
  C7 (as stated, refuted): the plan is created, and neither a consultation nor Patient Care
  Management is launched: each dispatch is awaited before the next is made, so the later
  dispatches wait for the Coordination dispatch, and here it raises.
\<close>

theorem later_launches_wait_for_coordination:
  "PlanCreation two_referral_examination
     \<in> set (snd (run_dental_care_workflow
                  (unavailable_coordinator_world two_referral_examination) patient_P1 []))
   \<and> create_treatment_plan two_referral_examination = Inr two_referral_plan
   \<and> dispatched (snd (run_dental_care_workflow
                  (unavailable_coordinator_world two_referral_examination) patient_P1 []))
      = [exam_task patient_P1, coordination_task two_referral_plan]"
  by (simp add: run_defs scenario_defs two_referral_plan_created)
     (simp add: two_referral_plan_def two_referral_examination_def preventive_care_literal_def)

text \<open>
  C7 (amended): in an execution that reaches the join or a read of \<^verbatim>\<open>results\<close>, or that returns
  a result dictionary, the log is: the examination, the plan creation, then the dispatch of
  the Coordination task, of one consultation per referral in order and of Patient Care
  Management, one after the other and each returned normally before the next; then one join
  over exactly the Coordination task, the care task and the consultations; then only reads of
  \<^verbatim>\<open>results\<close> and the printed error. No task is dispatched after the join, and unless the
  join returned normally no \<^verbatim>\<open>results\<close> is read and no result dictionary is returned.
\<close>

theorem launches_in_turn_then_join:
  assumes run: "run_dental_care_workflow w pd [] = (res, tr)"
    and reached: "list_ex joins_or_reads tr \<or> (\<exists>d. res = Inr (PDict d))"
  shows "\<exists>er plan items out post.
      create_treatment_plan er = Inr plan
    \<and> bind_exn (py_subscript plan ''specialist_referrals'') py_iter = Inr items
    \<and> tr = [AssignTask (exam_task pd) general_dentist None,
             TaskComplete (exam_task pd) (Inr er), PlanCreation er,
             AssignTask (coordination_task plan) treatment_coordinator None]
           @ map (\<lambda>x. AssignTask (specialist_task x) dental_specialist None) items
           @ [AssignTask (care_task pd) patient_care_coordinator None,
              Gather ([coordination_task plan, care_task pd] @ map specialist_task items) out]
           @ post
    \<and> list_all after_join post
    \<and> (out = None \<or> \<not> list_ex joins_or_reads post \<and> (\<forall>d. res \<noteq> Inr (PDict d)))"
  using run
proof (cases rule: run_cases)
  case (returned r)
  from body_joined[OF returned(1)] obtain er plan items out post where
      "create_treatment_plan er = Inr plan"
      "bind_exn (py_subscript plan ''specialist_referrals'') py_iter = Inr items"
      "tr = [AssignTask (exam_task pd) general_dentist None,
             TaskComplete (exam_task pd) (Inr er), PlanCreation er,
             AssignTask (coordination_task plan) treatment_coordinator None]
           @ map (\<lambda>x. AssignTask (specialist_task x) dental_specialist None) items
           @ [AssignTask (care_task pd) patient_care_coordinator None,
              Gather ([coordination_task plan, care_task pd] @ map specialist_task items) out]
           @ post"
      "list_all after_join post" "out = None"
    by auto
  then show ?thesis by blast
next
  case (caught c m tr1)
  from reached caught have "list_ex joins_or_reads tr1 \<or> \<not> isl (Inl (Exn c m) :: exn + pyval)"
    by simp
  from body_joined[OF caught(1) this] obtain er plan items out post where
      a: "create_treatment_plan er = Inr plan"
      "bind_exn (py_subscript plan ''specialist_referrals'') py_iter = Inr items"
    and tr1: "tr1 = [AssignTask (exam_task pd) general_dentist None,
             TaskComplete (exam_task pd) (Inr er), PlanCreation er,
             AssignTask (coordination_task plan) treatment_coordinator None]
           @ map (\<lambda>x. AssignTask (specialist_task x) dental_specialist None) items
           @ [AssignTask (care_task pd) patient_care_coordinator None,
              Gather ([coordination_task plan, care_task pd] @ map specialist_task items) out]
           @ post"
    and b: "list_all after_join post" "out = None \<or> post = []"
    by auto
  let ?post = "post @ [Print (''Error in dental care workflow: '' @ m)]"
  have "tr = [AssignTask (exam_task pd) general_dentist None,
             TaskComplete (exam_task pd) (Inr er), PlanCreation er,
             AssignTask (coordination_task plan) treatment_coordinator None]
           @ map (\<lambda>x. AssignTask (specialist_task x) dental_specialist None) items
           @ [AssignTask (care_task pd) patient_care_coordinator None,
              Gather ([coordination_task plan, care_task pd] @ map specialist_task items) out]
           @ ?post"
    using caught(2) tr1 by simp
  moreover have "list_all after_join ?post" using b by simp
  moreover have "out = None \<or> \<not> list_ex joins_or_reads ?post \<and> (\<forall>d. res \<noteq> Inr (PDict d))"
    using b caught(3) by auto
  ultimately show ?thesis using a by blast
next
  case (propagated c m)
  from reached propagated
  have "list_ex joins_or_reads tr \<or> \<not> isl (Inl (BaseExn c m) :: exn + pyval)" by simp
  from body_joined[OF propagated(1) this] obtain er plan items out post where
      a: "create_treatment_plan er = Inr plan"
      "bind_exn (py_subscript plan ''specialist_referrals'') py_iter = Inr items"
      "tr = [AssignTask (exam_task pd) general_dentist None,
             TaskComplete (exam_task pd) (Inr er), PlanCreation er,
             AssignTask (coordination_task plan) treatment_coordinator None]
           @ map (\<lambda>x. AssignTask (specialist_task x) dental_specialist None) items
           @ [AssignTask (care_task pd) patient_care_coordinator None,
              Gather ([coordination_task plan, care_task pd] @ map specialist_task items) out]
           @ post"
      "list_all after_join post"
    and b: "out = None \<or> post = []"
    by auto
  moreover have "out = None \<or> \<not> list_ex joins_or_reads post \<and> (\<forall>d. res \<noteq> Inr (PDict d))"
    using b propagated(2) by auto
  ultimately show ?thesis by blast
qed

text \<open>
  Two referrals, with the library in which every call succeeds.
\<close>

theorem launches_in_turn_then_join_witness:
  "list_ex joins_or_reads
     (snd (run_dental_care_workflow (cooperative_world two_referral_examination) patient_P1 []))
   \<and> (\<exists>er plan items out post.
        create_treatment_plan er = Inr plan
      \<and> bind_exn (py_subscript plan ''specialist_referrals'') py_iter = Inr items
      \<and> snd (run_dental_care_workflow (cooperative_world two_referral_examination) patient_P1 [])
          = [AssignTask (exam_task patient_P1) general_dentist None,
             TaskComplete (exam_task patient_P1) (Inr er), PlanCreation er,
             AssignTask (coordination_task plan) treatment_coordinator None]
           @ map (\<lambda>x. AssignTask (specialist_task x) dental_specialist None) items
           @ [AssignTask (care_task patient_P1) patient_care_coordinator None,
              Gather ([coordination_task plan, care_task patient_P1] @ map specialist_task items)
                out]
           @ post
      \<and> list_all after_join post
      \<and> (out = None \<or> \<not> list_ex joins_or_reads post
            \<and> (\<forall>d. fst (run_dental_care_workflow (cooperative_world two_referral_examination)
                           patient_P1 []) \<noteq> Inr (PDict d))))"
proof -
  let ?run = "run_dental_care_workflow (cooperative_world two_referral_examination) patient_P1 []"
  have run: "?run = (fst ?run, snd ?run)" by simp
  have reached: "list_ex joins_or_reads (snd ?run)"
    by (simp add: run_defs scenario_defs)
  then have "list_ex joins_or_reads (snd ?run) \<or> (\<exists>d. fst ?run = Inr (PDict d))" ..
  from launches_in_turn_then_join[OF run this] reached show ?thesis by blast
qed

text \<open>
  C10: no execution of \<^verbatim>\<open>run_dental_care_workflow\<close> dispatches a task named Dental Hygiene,
  whatever the patient data and whatever the library answers: the \<^verbatim>\<open>preventive_care\<close> entry of
  a created plan is the literal, which has no \<^verbatim>\<open>immediate_cleaning\<close> key.
\<close>

theorem hygiene_never_dispatched:
  "dispatched_named ''Dental Hygiene'' (snd (run_dental_care_workflow w pd [])) = []"
proof -
  obtain res tr where run: "run_dental_care_workflow w pd [] = (res, tr)"
    by (cases "run_dental_care_workflow w pd []")
  from run obtain r tr1 ps where body: "workflow_body w pd [] = (r, tr1)"
    and tr: "tr = tr1 @ ps" and ps: "ps = [] \<or> (\<exists>s. ps = [Print s])"
    by (rule run_body)
  from body_no_hygiene[OF body] tr ps have "dispatched_named ''Dental Hygiene'' tr = []"
    by (auto simp: dispatched_named_def)
  with run show ?thesis by simp
qed

end
